theory Spec2Isabelle
  imports Complex_Main
begin

section \<open>Values exchanged with the host\<close>

text \<open>
  The module \<^verbatim>\<open>lib/geolocation.js\<close> wraps the geolocation service of the host
  application. The values it passes around are numbers, strings, \<^verbatim>\<open>null\<close> and
  \<^verbatim>\<open>undefined\<close>; no arithmetic is done on the numbers, they are only stored,
  compared with \<^verbatim>\<open>===\<close> and handed on.
\<close>

datatype jsval = Undefined | Null | Num real | NaN | Str string

text \<open>Strict equality \<^verbatim>\<open>===\<close>: structural on these values, except that NaN equals nothing.\<close>

definition strict_eq :: "jsval \<Rightarrow> jsval \<Rightarrow> bool" where
  "strict_eq a b = (if a = NaN then False else a = b)"

text \<open>
  An error object as \<^verbatim>\<open>_onerror\<close> reads it: the \<^verbatim>\<open>code\<close> and the three constants
  it is compared with. A property the object does not have reads as \<open>Undefined\<close>.
\<close>

record position_error =
  code :: jsval
  PERMISSION_DENIED :: jsval
  POSITION_UNAVAILABLE :: jsval
  TIMEOUT :: jsval
  message :: string

text \<open>
  \<^verbatim>\<open>const ALLOWED_ERROR = { code : 1, message : "You must get permission ..." }\<close>:
  an object literal with two properties only.
\<close>

definition ALLOWED_ERROR :: position_error where
  "ALLOWED_ERROR =
     \<lparr> code = Num 1, PERMISSION_DENIED = Undefined, POSITION_UNAVAILABLE = Undefined,
       TIMEOUT = Undefined,
       message = ''You must get permission to use geolocation and set allowed to true'' \<rparr>"

text \<open>
  The error objects of the service (interface nsIDOMGeoPositionError) carry the
  constants 1, 2 and 3 beside their code.
\<close>

definition nsIDOMGeoPositionError :: "real \<Rightarrow> position_error" where
  "nsIDOMGeoPositionError c =
     \<lparr> code = Num c, PERMISSION_DENIED = Num 1, POSITION_UNAVAILABLE = Num 2,
       TIMEOUT = Num 3, message = [] \<rparr>"

record coordinates =
  latitude :: jsval
  longitude :: jsval
  accuracy :: jsval
  altitude :: jsval
  altitudeAccuracy :: jsval
  heading :: jsval
  speed :: jsval

type_synonym address = "(string \<times> string) list"

text \<open>
  A position object of the service. Objects are compared by reference in the source,
  so each object carries its identity \<open>oid\<close>; two objects with different \<open>oid\<close> may
  agree on every field. \<open>None\<close> stands for a \<^verbatim>\<open>null\<close> or missing property.
\<close>

record geo_position =
  oid :: nat
  timestamp :: jsval
  coords :: "coordinates option"
  address :: "address option"

record geo_options =
  enableHighAccuracy :: bool
  timeout :: int

datatype exn = TypeError | SvcException string

datatype reason = ErrorObject position_error | Thrown exn

text \<open>The state of a deferred made by \<^verbatim>\<open>defer()\<close>: it settles once.\<close>

datatype promise = Pending | Resolved "geo_position option" | Rejected reason

text \<open>The arguments \<^verbatim>\<open>emit(this, type, ...)\<close> is called with.\<close>

datatype payload =
    PCoords "coordinates option"
  | PAddress "address option"
  | PStr string
  | PNum int

type_synonym event = "string \<times> payload list"

text \<open>
  Calls made on the geolocation service. The two callbacks given to the service close
  over the deferred of the call, which the number records.
\<close>

datatype svc_call =
    SvcGetCurrentPosition nat geo_options
  | SvcWatchPosition nat geo_options
  | SvcClearWatch nat

datatype prefval = PBool bool | PInt int | PString string

section \<open>The instance\<close>

text \<open>
  The fields \<open>ns_*\<close> are those of \<^verbatim>\<open>namespace(this)\<close>. The two constants of the class
  come from the environment. The remaining fields are the outside world as the
  instance sees it: the preference store, the deferreds it made, the events it emitted,
  the calls it made on the service, and the watches the service has registered (a watch
  is registered when \<^verbatim>\<open>watchPosition\<close> of the service returns its id and
  unregistered by \<^verbatim>\<open>clearWatch\<close> of that id).
\<close>

record geolocation =
  ALLOW_GEOLOCATION_PREF :: string
  GEO_API_V1 :: bool
  ns_options :: geo_options
  ns_watchID :: "nat option"
  ns_position :: "geo_position option"
  ns_address :: "address option"
  ns_allowed :: bool
  prefs :: "string \<rightharpoonup> prefval"
  deferreds :: "promise list"
  emitted :: "event list"
  svc_calls :: "svc_call list"
  svc_watches :: "nat list"

definition GEO_API_V1_VALUES :: "(string \<times> prefval) list" where
  "GEO_API_V1_VALUES =
     [(''geo.wifi.protocol'', PInt 0),
      (''geo.wifi.uri'', PString ''https://www.google.com/loc/json'')]"

text \<open>Truthiness of a preference value, as \<^verbatim>\<open>if (this.allowed)\<close> tests it.\<close>

fun truthy :: "prefval \<Rightarrow> bool" where
  "truthy (PBool b) = b"
| "truthy (PInt n) = (n \<noteq> 0)"
| "truthy (PString s) = (s \<noteq> [])"

text \<open>
  \<^verbatim>\<open>initialize\<close>, called once with no options by \<^verbatim>\<open>new GeolocationClass()\<close>. Its
  parameters are the add-on id, whether the application version is in the range 4 to 8,
  and the preference store it finds.
\<close>

definition initialize :: "string \<Rightarrow> bool \<Rightarrow> (string \<rightharpoonup> prefval) \<Rightarrow> geolocation" where
  "initialize self_id v1 store =
     (let pref = ''extensions.'' @ self_id @ ''.allowGeolocation'';
          store1 = (if v1
                    then fold (\<lambda>(key, v) m. if m key = None then m(key \<mapsto> v) else m)
                           GEO_API_V1_VALUES store
                    else store)
      in \<lparr> ALLOW_GEOLOCATION_PREF = pref,
           GEO_API_V1 = v1,
           ns_options = \<lparr> enableHighAccuracy = False, timeout = 15 * 1000 \<rparr>,
           ns_watchID = None,
           ns_position = None,
           ns_address = None,
           ns_allowed = (case store1 pref of None \<Rightarrow> False | Some v \<Rightarrow> truthy v),
           prefs = store1,
           deferreds = [],
           emitted = [],
           svc_calls = [],
           svc_watches = [] \<rparr>)"

subsection \<open>Getters and setters\<close>

definition get_enableHighAccuracy :: "geolocation \<Rightarrow> bool" where
  "get_enableHighAccuracy s = enableHighAccuracy (ns_options s)"

definition set_enableHighAccuracy :: "bool \<Rightarrow> geolocation \<Rightarrow> geolocation" where
  "set_enableHighAccuracy b s = s\<lparr>ns_options := (ns_options s)\<lparr>enableHighAccuracy := b\<rparr>\<rparr>"

definition get_timeout :: "geolocation \<Rightarrow> int" where
  "get_timeout s = timeout (ns_options s)"

definition set_timeout :: "int \<Rightarrow> geolocation \<Rightarrow> geolocation" where
  "set_timeout t s = s\<lparr>ns_options := (ns_options s)\<lparr>timeout := t\<rparr>\<rparr>"

definition get_position :: "geolocation \<Rightarrow> geo_position option" where
  "get_position s = ns_position s"

definition get_timestamp :: "geolocation \<Rightarrow> jsval" where
  "get_timestamp s = (case get_position s of Some p \<Rightarrow> timestamp p | None \<Rightarrow> Null)"

definition get_coords :: "geolocation \<Rightarrow> coordinates option" where
  "get_coords s = (case get_position s of Some p \<Rightarrow> coords p | None \<Rightarrow> None)"

definition get_latitude :: "geolocation \<Rightarrow> jsval" where
  "get_latitude s = (case get_coords s of Some c \<Rightarrow> latitude c | None \<Rightarrow> Str [])"

definition get_longitude :: "geolocation \<Rightarrow> jsval" where
  "get_longitude s = (case get_coords s of Some c \<Rightarrow> longitude c | None \<Rightarrow> Str [])"

definition get_accuracy :: "geolocation \<Rightarrow> jsval" where
  "get_accuracy s = (case get_coords s of Some c \<Rightarrow> accuracy c | None \<Rightarrow> Null)"

definition get_altitude :: "geolocation \<Rightarrow> jsval" where
  "get_altitude s = (case get_coords s of Some c \<Rightarrow> altitude c | None \<Rightarrow> Null)"

definition get_altitudeAccuracy :: "geolocation \<Rightarrow> jsval" where
  "get_altitudeAccuracy s =
     (case get_coords s of Some c \<Rightarrow> altitudeAccuracy c | None \<Rightarrow> Null)"

definition get_heading :: "geolocation \<Rightarrow> jsval" where
  "get_heading s = (case get_coords s of Some c \<Rightarrow> heading c | None \<Rightarrow> Null)"

definition get_speed :: "geolocation \<Rightarrow> jsval" where
  "get_speed s = (case get_coords s of Some c \<Rightarrow> speed c | None \<Rightarrow> Null)"

text \<open>
  \<^verbatim>\<open>get address() { return (this.position.address)? this.position.address : null; }\<close>
  reads a property of \<^verbatim>\<open>this.position\<close> without testing it: on \<^verbatim>\<open>null\<close> that read
  throws a TypeError.
\<close>

definition get_address :: "geolocation \<Rightarrow> exn + address option" where
  "get_address s =
     (case get_position s of
        None \<Rightarrow> Inl TypeError
      | Some p \<Rightarrow> Inr (case address p of Some a \<Rightarrow> Some a | None \<Rightarrow> None))"

definition get_allowed :: "geolocation \<Rightarrow> bool" where
  "get_allowed s = ns_allowed s"

definition isWatching :: "geolocation \<Rightarrow> bool" where
  "isWatching s = (ns_watchID s \<noteq> None)"

definition stopWatching :: "geolocation \<Rightarrow> geolocation" where
  "stopWatching s =
     (if isWatching s
      then (case ns_watchID s of
              None \<Rightarrow> s
            | Some w \<Rightarrow> s\<lparr> svc_calls := svc_calls s @ [SvcClearWatch w],
                          svc_watches := removeAll w (svc_watches s),
                          ns_watchID := None \<rparr>)
      else s)"

definition set_allowed :: "bool \<Rightarrow> geolocation \<Rightarrow> geolocation" where
  "set_allowed allow s =
     (let s1 = s\<lparr>ns_allowed := allow\<rparr>;
          s2 = s1\<lparr>prefs := (prefs s1)(ALLOW_GEOLOCATION_PREF s1 \<mapsto> PBool allow)\<rparr>
      in if \<not> allow then stopWatching s2 else s2)"

subsection \<open>Events and deferreds\<close>

definition emit :: "event \<Rightarrow> geolocation \<Rightarrow> geolocation" where
  "emit ev s = s\<lparr>emitted := emitted s @ [ev]\<rparr>"

definition sdk_defer :: "geolocation \<Rightarrow> nat \<times> geolocation" where
  "sdk_defer s = (length (deferreds s), s\<lparr>deferreds := deferreds s @ [Pending]\<rparr>)"

definition settle :: "nat \<Rightarrow> promise \<Rightarrow> geolocation \<Rightarrow> geolocation" where
  "settle d v s =
     (if d < length (deferreds s)
      then (if deferreds s ! d = Pending then s\<lparr>deferreds := (deferreds s)[d := v]\<rparr> else s)
      else s)"

definition resolve :: "nat \<Rightarrow> geo_position option \<Rightarrow> geolocation \<Rightarrow> geolocation" where
  "resolve d v s = settle d (Resolved v) s"

definition reject :: "nat \<Rightarrow> reason \<Rightarrow> geolocation \<Rightarrow> geolocation" where
  "reject d r s = settle d (Rejected r) s"

subsection \<open>The callbacks\<close>

text \<open>
  \<^verbatim>\<open>position != namespace(this).position\<close>, for a position object of the service and
  the cached value, which is \<^verbatim>\<open>null\<close> or an earlier object: two objects are unequal
  when they are not the same object.
\<close>

definition loose_neq :: "geo_position \<Rightarrow> geo_position option \<Rightarrow> bool" where
  "loose_neq position cached =
     (case cached of None \<Rightarrow> True | Some q \<Rightarrow> oid position \<noteq> oid q)"

text \<open>
  \<^verbatim>\<open>_setposition\<close>. The read of \<^verbatim>\<open>this.address\<close> comes after the position is stored,
  so its failing branch is not taken there.
\<close>

definition setposition :: "geo_position \<Rightarrow> geolocation \<Rightarrow> geolocation" where
  "setposition position s =
     (if loose_neq position (ns_position s)
      then (let s1 = s\<lparr>ns_position := Some position\<rparr>;
                s2 = emit (''coords'', [PCoords (get_coords s1)]) s1
            in if GEO_API_V1 s2
               then (let s3 = s2\<lparr>ns_address := address position\<rparr>
                     in case get_address s3 of
                          Inr a \<Rightarrow> emit (''address'', [PAddress a]) s3
                        | Inl ex \<Rightarrow> s3)
               else s2)
      else s)"

text \<open>\<^verbatim>\<open>_onerror\<close>: three comparisons of the code with constants read from the error itself.\<close>

definition onerror :: "position_error \<Rightarrow> geolocation \<Rightarrow> geolocation" where
  "onerror e s =
     (if strict_eq (code e) (PERMISSION_DENIED e)
      then emit (''error'', [PStr ''permission-denied'']) s
      else if strict_eq (code e) (POSITION_UNAVAILABLE e)
      then emit (''error'', [PStr ''position-unavailable'']) s
      else if strict_eq (code e) (TIMEOUT e)
      then emit (''error'', [PStr ''timeout'', PNum (get_timeout s)]) s
      else s)"

text \<open>
  The closures \<^verbatim>\<open>success\<close> and \<^verbatim>\<open>fail\<close> handed to the service; they have the same
  body in \<^verbatim>\<open>getCurrentPosition\<close> and in \<^verbatim>\<open>watchPosition\<close>. The first argument is
  the deferred they close over.
\<close>

definition success :: "nat \<Rightarrow> geo_position \<Rightarrow> geolocation \<Rightarrow> geolocation" where
  "success deferred position s = resolve deferred (Some position) (setposition position s)"

definition fail :: "nat \<Rightarrow> position_error \<Rightarrow> geolocation \<Rightarrow> geolocation" where
  "fail deferred positionError s =
     reject deferred (ErrorObject positionError) (onerror positionError s)"

subsection \<open>The entry points\<close>

text \<open>
  What the service does with a call is a parameter: its \<^verbatim>\<open>getCurrentPosition\<close>
  returns or throws (\<open>Some ex\<close>), its \<^verbatim>\<open>watchPosition\<close> returns a watch id (\<open>Inr\<close>)
  or throws (\<open>Inl\<close>). An entry point returns the promise of its deferred (\<open>Inr\<close>) or
  throws (\<open>Inl\<close>), together with the state it leaves.
\<close>

definition getCurrentPosition ::
  "exn option \<Rightarrow> geolocation \<Rightarrow> (exn + nat) \<times> geolocation" where
  "getCurrentPosition svc s =
     (let (deferred, s1) = sdk_defer s
      in if get_allowed s1
         then (let s2 = s1\<lparr>svc_calls :=
                            svc_calls s1 @ [SvcGetCurrentPosition deferred (ns_options s1)]\<rparr>
               in case svc of
                    Some ex \<Rightarrow> (Inl ex, s2)
                  | None \<Rightarrow> (Inr deferred, s2))
         else (let s2 = onerror ALLOWED_ERROR s1;
                   s3 = reject deferred (ErrorObject ALLOWED_ERROR) s2
               in (Inr deferred, s3)))"

definition watchPosition ::
  "exn + nat \<Rightarrow> geolocation \<Rightarrow> (exn + nat) \<times> geolocation" where
  "watchPosition svc s =
     (let (deferred, s1) = sdk_defer s
      in if get_allowed s1
         then (if \<not> isWatching s1
               then (let s2 = s1\<lparr>svc_calls :=
                                  svc_calls s1 @ [SvcWatchPosition deferred (ns_options s1)]\<rparr>
                     in case svc of
                          Inr wid \<Rightarrow>
                            (Inr deferred,
                             s2\<lparr> svc_watches := svc_watches s2 @ [wid],
                                 ns_watchID := Some wid \<rparr>)
                        | Inl exception \<Rightarrow> (Inr deferred, reject deferred (Thrown exception) s2))
               else (Inr deferred, resolve deferred (get_position s1) s1))
         else (let s2 = stopWatching s1;
                   s3 = onerror ALLOWED_ERROR s2;
                   s4 = reject deferred (ErrorObject ALLOWED_ERROR) s3
               in (Inr deferred, s4)))"

definition unload :: "string \<Rightarrow> geolocation \<Rightarrow> geolocation" where
  "unload reason s =
     (let s1 = stopWatching s
      in if reason = ''disable'' then set_allowed False s1 else s1)"

subsection \<open>Everything that can happen to an instance\<close>

datatype action =
    SetAllowed bool
  | SetEnableHighAccuracy bool
  | SetTimeout int
  | GetCurrentPosition "exn option"
  | WatchPosition "exn + nat"
  | StopWatching
  | Unload string
  | Success nat geo_position
  | Fail nat position_error

fun step :: "action \<Rightarrow> geolocation \<Rightarrow> geolocation" where
  "step (SetAllowed b) s = set_allowed b s"
| "step (SetEnableHighAccuracy b) s = set_enableHighAccuracy b s"
| "step (SetTimeout t) s = set_timeout t s"
| "step (GetCurrentPosition svc) s = snd (getCurrentPosition svc s)"
| "step (WatchPosition svc) s = snd (watchPosition svc s)"
| "step StopWatching s = stopWatching s"
| "step (Unload reason) s = unload reason s"
| "step (Success d p) s = success d p s"
| "step (Fail d e) s = fail d e s"

text \<open>
  The stored handle and the watches registered with the service agree: none and none,
  or one handle and exactly that watch.
\<close>

definition watch_inv :: "geolocation \<Rightarrow> bool" where
  "watch_inv s =
     (svc_watches s = (case ns_watchID s of None \<Rightarrow> [] | Some w \<Rightarrow> [w]))"

subsection \<open>Sample values\<close>

definition sample_coords :: coordinates where
  "sample_coords =
     \<lparr> latitude = Num 10, longitude = Num 20, accuracy = Num 5, altitude = Num 0,
       altitudeAccuracy = Num 0, heading = NaN, speed = NaN \<rparr>"

definition sample_A :: geo_position where
  "sample_A = \<lparr> oid = 1, timestamp = Num 1000, coords = Some sample_coords, address = None \<rparr>"

definition sample_B :: geo_position where
  "sample_B = \<lparr> oid = 2, timestamp = Num 1000, coords = Some sample_coords, address = None \<rparr>"

text \<open>A fresh instance of a modern application, and one that is allowed and watching.\<close>

definition fresh :: geolocation where
  "fresh = initialize ''addon'' False Map.empty"

definition watching :: geolocation where
  "watching = snd (watchPosition (Inr 7) (set_allowed True fresh))"

section \<open>How each operation changes the fields\<close>

lemma onerror_ALLOWED_ERROR: "onerror ALLOWED_ERROR s = s"
  by (simp add: onerror_def ALLOWED_ERROR_def strict_eq_def)

lemma fresh_fields:
  "ns_allowed fresh = False" "ns_watchID fresh = None" "deferreds fresh = []"
  "emitted fresh = []" "svc_calls fresh = []" "svc_watches fresh = []"
  "ns_position fresh = None" "GEO_API_V1 fresh = False"
  "ns_options fresh = \<lparr> enableHighAccuracy = False, timeout = 15000 \<rparr>"
  by (simp_all add: fresh_def initialize_def)

lemma watching_fields:
  "ns_allowed watching = True" "ns_watchID watching = Some 7" "deferreds watching = [Pending]"
  "emitted watching = []" "svc_watches watching = [7]"
  "ns_position watching = None" "GEO_API_V1 watching = False"
  "svc_calls watching = [SvcWatchPosition 0 \<lparr> enableHighAccuracy = False, timeout = 15000 \<rparr>]"
  by (simp_all add: watching_def watchPosition_def sdk_defer_def get_allowed_def set_allowed_def
      isWatching_def fresh_fields)

lemma settle_fields:
  "emitted (settle d v s) = emitted s" "ns_position (settle d v s) = ns_position s"
  "ns_watchID (settle d v s) = ns_watchID s" "svc_watches (settle d v s) = svc_watches s"
  "svc_calls (settle d v s) = svc_calls s" "ns_allowed (settle d v s) = ns_allowed s"
  "prefs (settle d v s) = prefs s"
  by (simp_all add: settle_def)

lemma settle_pending:
  "d < length (deferreds s) \<Longrightarrow> deferreds s ! d = Pending \<Longrightarrow> deferreds (settle d v s) ! d = v"
  by (simp add: settle_def)

lemma setposition_fields:
  "ns_watchID (setposition p s) = ns_watchID s" "svc_watches (setposition p s) = svc_watches s"
  "svc_calls (setposition p s) = svc_calls s" "deferreds (setposition p s) = deferreds s"
  "ns_allowed (setposition p s) = ns_allowed s" "prefs (setposition p s) = prefs s"
  by (simp_all add: setposition_def emit_def get_address_def get_position_def Let_def)

lemma setposition_position:
  "ns_position (setposition p s) = (if loose_neq p (ns_position s) then Some p else ns_position s)"
  by (simp add: setposition_def emit_def get_address_def get_position_def Let_def)

lemma setposition_emitted:
  "emitted (setposition p s) =
     emitted s @
     (if loose_neq p (ns_position s)
      then (''coords'', [PCoords (coords p)]) #
           (if GEO_API_V1 s then [(''address'', [PAddress (address p)])] else [])
      else [])"
  by (cases "address p")
     (simp_all add: setposition_def emit_def get_address_def get_position_def get_coords_def Let_def)

lemma onerror_fields:
  "ns_watchID (onerror e s) = ns_watchID s" "svc_watches (onerror e s) = svc_watches s"
  "svc_calls (onerror e s) = svc_calls s" "deferreds (onerror e s) = deferreds s"
  "ns_allowed (onerror e s) = ns_allowed s" "prefs (onerror e s) = prefs s"
  "ns_position (onerror e s) = ns_position s"
  by (simp_all add: onerror_def emit_def)

lemma onerror_emitted:
  "emitted (onerror e s) =
     emitted s @
     (if strict_eq (code e) (PERMISSION_DENIED e) then [(''error'', [PStr ''permission-denied''])]
      else if strict_eq (code e) (POSITION_UNAVAILABLE e)
      then [(''error'', [PStr ''position-unavailable''])]
      else if strict_eq (code e) (TIMEOUT e)
      then [(''error'', [PStr ''timeout'', PNum (timeout (ns_options s))])]
      else [])"
  by (simp add: onerror_def emit_def get_timeout_def)

lemma stopWatching_fields:
  "emitted (stopWatching s) = emitted s" "ns_position (stopWatching s) = ns_position s"
  "deferreds (stopWatching s) = deferreds s" "ns_allowed (stopWatching s) = ns_allowed s"
  "prefs (stopWatching s) = prefs s" "GEO_API_V1 (stopWatching s) = GEO_API_V1 s"
  "ns_options (stopWatching s) = ns_options s" "ns_watchID (stopWatching s) = None"
  by (simp_all add: stopWatching_def isWatching_def split: option.splits)

lemma stopWatching_calls:
  "svc_calls (stopWatching s) =
     svc_calls s @ (case ns_watchID s of None \<Rightarrow> [] | Some w \<Rightarrow> [SvcClearWatch w])"
  by (simp add: stopWatching_def isWatching_def split: option.splits)

lemma stopWatching_inv: "watch_inv s \<Longrightarrow> watch_inv (stopWatching s)"
  by (simp add: watch_inv_def stopWatching_def isWatching_def split: option.splits)

lemma stopWatching_watches: "watch_inv s \<Longrightarrow> svc_watches (stopWatching s) = []"
  by (simp add: watch_inv_def stopWatching_def isWatching_def split: option.splits)

lemma set_allowed_fields:
  "emitted (set_allowed b s) = emitted s" "ns_position (set_allowed b s) = ns_position s"
  "deferreds (set_allowed b s) = deferreds s" "ns_allowed (set_allowed b s) = b"
  "GEO_API_V1 (set_allowed b s) = GEO_API_V1 s" "ns_options (set_allowed b s) = ns_options s"
  "prefs (set_allowed b s) = (prefs s)(ALLOW_GEOLOCATION_PREF s \<mapsto> PBool b)"
  "ns_watchID (set_allowed b s) = (if b then ns_watchID s else None)"
  by (simp_all add: set_allowed_def stopWatching_def isWatching_def Let_def split: option.splits)

lemma set_allowed_inv: "watch_inv s \<Longrightarrow> watch_inv (set_allowed b s)"
  by (simp add: watch_inv_def set_allowed_def stopWatching_def isWatching_def Let_def
      split: option.splits)


lemma settle_deferreds:
  "deferreds (settle d v s) =
     (if d < length (deferreds s) \<and> deferreds s ! d = Pending
      then (deferreds s)[d := v] else deferreds s)"
  by (simp add: settle_def)

lemma delivered_fields:
  "ns_position (success 0 sample_A watching) = Some sample_A"
  "deferreds (success 0 sample_A watching) = [Resolved (Some sample_A)]"
  "emitted (success 0 sample_A watching) = [(''coords'', [PCoords (Some sample_coords)])]"
  by (simp_all add: success_def resolve_def settle_fields settle_deferreds setposition_fields
      setposition_position setposition_emitted watching_fields loose_neq_def sample_A_def)

section \<open>Callbacks that arrive after the watch was stopped\<close>




section \<open>The handle agrees with the watches of the service\<close>

lemma allowed_fields:
  "ns_allowed (set_allowed True fresh) = True" "ns_watchID (set_allowed True fresh) = None"
  "deferreds (set_allowed True fresh) = []" "svc_calls (set_allowed True fresh) = []"
  "emitted (set_allowed True fresh) = []"
  "ns_options (set_allowed True fresh) = \<lparr> enableHighAccuracy = False, timeout = 15000 \<rparr>"
  by (simp_all add: set_allowed_fields fresh_fields set_allowed_def)

lemma settle_inv: "watch_inv (settle d v s) = watch_inv s"
  by (simp add: watch_inv_def settle_fields)

lemma setposition_inv: "watch_inv (setposition p s) = watch_inv s"
  by (simp add: watch_inv_def setposition_fields)

lemma onerror_inv: "watch_inv (onerror e s) = watch_inv s"
  by (simp add: watch_inv_def onerror_fields)

lemma getCurrentPosition_fields:
  "ns_watchID (snd (getCurrentPosition svc s)) = ns_watchID s"
  "svc_watches (snd (getCurrentPosition svc s)) = svc_watches s"
  by (simp_all add: getCurrentPosition_def sdk_defer_def get_allowed_def onerror_ALLOWED_ERROR
      reject_def settle_fields Let_def split: option.splits)

lemma getCurrentPosition_inv: "watch_inv s \<Longrightarrow> watch_inv (snd (getCurrentPosition svc s))"
  by (simp add: watch_inv_def getCurrentPosition_fields)

lemma deferreds_inv: "watch_inv (s\<lparr>deferreds := ds\<rparr>) = watch_inv s"
  by (simp add: watch_inv_def)

lemma watchPosition_inv: "watch_inv s \<Longrightarrow> watch_inv (snd (watchPosition svc s))"
proof (cases "ns_allowed s")
  case False
  assume "watch_inv s"
  then have "watch_inv (stopWatching (s\<lparr>deferreds := deferreds s @ [Pending]\<rparr>))"
    by (simp add: stopWatching_inv deferreds_inv)
  with False show ?thesis
    by (simp add: watchPosition_def sdk_defer_def get_allowed_def onerror_ALLOWED_ERROR
        reject_def settle_inv)
next
  case True
  assume "watch_inv s"
  with True show ?thesis
    by (cases "ns_watchID s"; cases svc)
       (simp_all add: watchPosition_def sdk_defer_def get_allowed_def isWatching_def
         reject_def resolve_def settle_fields Let_def watch_inv_def)
qed

lemma unload_inv: "watch_inv s \<Longrightarrow> watch_inv (unload reason s)"
  by (simp add: unload_def Let_def stopWatching_inv set_allowed_inv)

lemma step_inv: "watch_inv s \<Longrightarrow> watch_inv (step a s)"
proof (cases a)
  case (SetAllowed b)
  assume "watch_inv s" with SetAllowed show ?thesis by (simp add: set_allowed_inv)
next
  case (SetEnableHighAccuracy b)
  assume "watch_inv s" with SetEnableHighAccuracy show ?thesis
    by (simp add: set_enableHighAccuracy_def watch_inv_def)
next
  case (SetTimeout t)
  assume "watch_inv s" with SetTimeout show ?thesis
    by (simp add: set_timeout_def watch_inv_def)
next
  case (GetCurrentPosition svc)
  assume "watch_inv s" with GetCurrentPosition show ?thesis
    by (simp add: getCurrentPosition_inv)
next
  case (WatchPosition svc)
  assume "watch_inv s" with WatchPosition show ?thesis by (simp add: watchPosition_inv)
next
  case StopWatching
  assume "watch_inv s" with StopWatching show ?thesis by (simp add: stopWatching_inv)
next
  case (Unload reason)
  assume "watch_inv s" with Unload show ?thesis by (simp add: unload_inv)
next
  case (Success d p)
  assume "watch_inv s" with Success show ?thesis
    by (simp add: success_def resolve_def settle_inv setposition_inv)
next
  case (Fail d e)
  assume "watch_inv s" with Fail show ?thesis
    by (simp add: fail_def reject_def settle_inv onerror_inv)
qed

lemma steps_inv: "watch_inv s \<Longrightarrow> watch_inv (fold step acts s)"
  by (induction acts arbitrary: s) (simp_all add: step_inv)

lemma initialize_inv: "watch_inv (initialize self_id v1 store)"
  by (simp add: initialize_def watch_inv_def Let_def)

lemma watchPosition_registration_failure:
  assumes "ns_allowed s" and "ns_watchID s = None"
  shows "fst (watchPosition (Inl ex) s) = Inr (length (deferreds s))"
    and "ns_watchID (snd (watchPosition (Inl ex) s)) = None"
    and "svc_watches (snd (watchPosition (Inl ex) s)) = svc_watches s"
    and "deferreds (snd (watchPosition (Inl ex) s)) ! length (deferreds s) = Rejected (Thrown ex)"
  using assms
  by (simp_all add: watchPosition_def sdk_defer_def get_allowed_def isWatching_def reject_def
      settle_def Let_def)

lemma watchPosition_calls_when_stored:
  "ns_watchID s = Some w \<Longrightarrow>
   svc_calls (snd (watchPosition svc s)) =
     svc_calls s @ (if ns_allowed s then [] else [SvcClearWatch w])"
  by (simp add: watchPosition_def sdk_defer_def get_allowed_def isWatching_def reject_def
      resolve_def settle_fields onerror_ALLOWED_ERROR stopWatching_calls Let_def)

section \<open>Errors announced to listeners\<close>

text \<open>
  C2: every classified error, the not-allowed error of the permission gate among them,
  is emitted as an \<^verbatim>\<open>error\<close> event beside rejecting the deferred of the call. On a
  fresh instance (\<^verbatim>\<open>allowed\<close> false) both entry points hand \<open>ALLOWED_ERROR\<close> to
  \<^verbatim>\<open>_onerror\<close> and reject with it, but nothing is emitted: the object literal has a
  \<^verbatim>\<open>code\<close> and no constant to compare it with, so all three comparisons fail. An
  error object of the service with code 1 is announced.
\<close>

theorem not_allowed_error_not_emitted:
  "\<not> ns_allowed fresh \<and>
   fst (getCurrentPosition None fresh) = Inr 0 \<and>
   deferreds (snd (getCurrentPosition None fresh)) = [Rejected (ErrorObject ALLOWED_ERROR)] \<and>
   emitted (snd (getCurrentPosition None fresh)) = [] \<and>
   fst (watchPosition (Inr 7) fresh) = Inr 0 \<and>
   deferreds (snd (watchPosition (Inr 7) fresh)) = [Rejected (ErrorObject ALLOWED_ERROR)] \<and>
   emitted (snd (watchPosition (Inr 7) fresh)) = [] \<and>
   emitted (fail 0 (nsIDOMGeoPositionError 1) fresh) = [(''error'', [PStr ''permission-denied''])]"
  by (simp add: getCurrentPosition_def watchPosition_def sdk_defer_def get_allowed_def
      onerror_ALLOWED_ERROR reject_def settle_def stopWatching_def isWatching_def fresh_fields
      fail_def onerror_emitted nsIDOMGeoPositionError_def strict_eq_def)

section \<open>The permission gate of the one-shot call\<close>

text \<open>
  C3: when \<^verbatim>\<open>allowed\<close> is false, \<^verbatim>\<open>getCurrentPosition()\<close> returns a promise that is
  rejected with \<open>ALLOWED_ERROR\<close> and makes no call on the service; when \<^verbatim>\<open>allowed\<close> is
  true it calls \<^verbatim>\<open>getCurrentPosition\<close> of the service exactly once, with the options
  of the moment.
\<close>

theorem getCurrentPosition_gate:
  "(\<not> ns_allowed s \<longrightarrow>
      fst (getCurrentPosition svc s) = Inr (length (deferreds s)) \<and>
      deferreds (snd (getCurrentPosition svc s)) ! length (deferreds s) =
        Rejected (ErrorObject ALLOWED_ERROR) \<and>
      svc_calls (snd (getCurrentPosition svc s)) = svc_calls s) \<and>
   (ns_allowed s \<longrightarrow>
      svc_calls (snd (getCurrentPosition svc s)) =
        svc_calls s @ [SvcGetCurrentPosition (length (deferreds s)) (ns_options s)])"
  by (simp add: getCurrentPosition_def sdk_defer_def get_allowed_def onerror_ALLOWED_ERROR
      reject_def settle_def Let_def split: option.splits)

text \<open>
  C3 on a fresh instance, before and after \<^verbatim>\<open>allowed = true\<close>.
\<close>

theorem getCurrentPosition_gate_witness:
  "\<not> ns_allowed fresh \<and>
   fst (getCurrentPosition None fresh) = Inr 0 \<and>
   deferreds (snd (getCurrentPosition None fresh)) ! 0 = Rejected (ErrorObject ALLOWED_ERROR) \<and>
   svc_calls (snd (getCurrentPosition None fresh)) = [] \<and>
   ns_allowed (set_allowed True fresh) \<and>
   svc_calls (snd (getCurrentPosition None (set_allowed True fresh))) =
     [SvcGetCurrentPosition 0 \<lparr> enableHighAccuracy = False, timeout = 15000 \<rparr>]"
  using getCurrentPosition_gate [of fresh None]
    getCurrentPosition_gate [of "set_allowed True fresh" None]
  by (simp add: fresh_fields allowed_fields)

section \<open>Change detection\<close>

text \<open>
  C4, as stated: on every success callback, also one that delivers the cached object
  again, the completion handle of the call resolves with the sample. A deferred settles
  once. The watch with handle 7 delivers \<open>sample_A\<close>, then \<open>sample_B\<close>, then \<open>sample_B\<close>
  again: the third sample is the cached object, nothing is emitted, and the handle of
  the call stays resolved with \<open>sample_A\<close>, not with the sample delivered.
\<close>

theorem redelivered_sample_counterexample:
  "deferreds watching = [Pending] \<and>
   ns_position (success 0 sample_B (success 0 sample_A watching)) = Some sample_B \<and>
   \<not> loose_neq sample_B (ns_position (success 0 sample_B (success 0 sample_A watching))) \<and>
   emitted (success 0 sample_B (success 0 sample_B (success 0 sample_A watching))) =
     emitted (success 0 sample_B (success 0 sample_A watching)) \<and>
   deferreds (success 0 sample_B (success 0 sample_B (success 0 sample_A watching))) ! 0 =
     Resolved (Some sample_A) \<and>
   Resolved (Some sample_A) \<noteq> Resolved (Some sample_B)"
  by (simp add: success_def resolve_def settle_fields settle_deferreds setposition_fields
      setposition_position setposition_emitted watching_fields loose_neq_def
      sample_A_def sample_B_def)

text \<open>
  C4, amended: a success callback compares the delivered sample with the cached one by
  identity. The same object leaves the cached sample and the events as they are; another
  object is stored and announced with \<^verbatim>\<open>coords\<close> (then \<^verbatim>\<open>address\<close> under the old API),
  whatever its fields, so two objects \<open>a\<close> and \<open>b\<close> that are not the same, delivered one
  after the other, add two \<^verbatim>\<open>coords\<close> events. In both cases the completion handle of
  the call resolves with the sample when it is still pending, as that of a one-shot call
  is; a handle that has settled, as that of a watch after its first callback, is left as
  it is, and no other handle changes.
\<close>

theorem change_detection_by_identity:
  "(\<not> loose_neq p (ns_position s) \<longrightarrow>
      ns_position (success d p s) = ns_position s \<and> emitted (success d p s) = emitted s) \<and>
   (loose_neq p (ns_position s) \<longrightarrow>
      ns_position (success d p s) = Some p \<and>
      emitted (success d p s) =
        emitted s @ (''coords'', [PCoords (coords p)]) #
          (if GEO_API_V1 s then [(''address'', [PAddress (address p)])] else [])) \<and>
   (d < length (deferreds s) \<and> deferreds s ! d = Pending \<longrightarrow>
      deferreds (success d p s) ! d = Resolved (Some p)) \<and>
   deferreds (success d p s) =
     (if d < length (deferreds s) \<and> deferreds s ! d = Pending
      then (deferreds s)[d := Resolved (Some p)] else deferreds s) \<and>
   (loose_neq a (ns_position s) \<and> oid a \<noteq> oid b \<longrightarrow>
      filter (\<lambda>ev. fst ev = ''coords'') (emitted (success d' b (success d a s))) =
        filter (\<lambda>ev. fst ev = ''coords'') (emitted s) @
        [(''coords'', [PCoords (coords a)]), (''coords'', [PCoords (coords b)])])"
  by (simp add: success_def resolve_def settle_fields settle_deferreds setposition_fields
      setposition_emitted setposition_position loose_neq_def)

text \<open>
  The amended C4 on two samples with latitude 10 and longitude 20 that agree on every
  field and differ in identity. The watch delivers the first; a one-shot call made then
  has a pending handle, and when it is given the cached object nothing is emitted and
  that handle resolves with it, while the settled handle of the watch stays. The two
  samples delivered in turn are announced twice.
\<close>

theorem change_detection_by_identity_witness:
  "loose_neq sample_A (ns_position watching) \<and> oid sample_A \<noteq> oid sample_B \<and>
   coords sample_A = coords sample_B \<and> timestamp sample_A = timestamp sample_B \<and>
   address sample_A = address sample_B \<and>
   deferreds watching = [Pending] \<and>
   deferreds (success 0 sample_A watching) = [Resolved (Some sample_A)] \<and>
   ns_position (success 0 sample_A watching) = Some sample_A \<and>
   \<not> loose_neq sample_A
       (ns_position (snd (getCurrentPosition None (success 0 sample_A watching)))) \<and>
   deferreds (snd (getCurrentPosition None (success 0 sample_A watching))) =
     [Resolved (Some sample_A), Pending] \<and>
   emitted (success 1 sample_A (snd (getCurrentPosition None (success 0 sample_A watching)))) =
     emitted (snd (getCurrentPosition None (success 0 sample_A watching))) \<and>
   deferreds (success 1 sample_A (snd (getCurrentPosition None (success 0 sample_A watching)))) =
     [Resolved (Some sample_A), Resolved (Some sample_A)] \<and>
   deferreds (success 0 sample_B (success 0 sample_A watching)) = [Resolved (Some sample_A)] \<and>
   filter (\<lambda>ev. fst ev = ''coords'') (emitted (success 0 sample_B (success 0 sample_A watching))) =
     [(''coords'', [PCoords (Some sample_coords)]), (''coords'', [PCoords (Some sample_coords)])]"
proof -
  have call:
    "ns_position (snd (getCurrentPosition None (success 0 sample_A watching))) = Some sample_A"
    "deferreds (snd (getCurrentPosition None (success 0 sample_A watching))) =
       [Resolved (Some sample_A), Pending]"
    by (simp_all add: getCurrentPosition_def sdk_defer_def get_allowed_def Let_def
        success_def resolve_def settle_fields settle_deferreds setposition_fields
        setposition_position watching_fields loose_neq_def)
  show ?thesis
    using call
      change_detection_by_identity [of sample_A watching 0 sample_A sample_B 0]
      change_detection_by_identity [of sample_B "success 0 sample_A watching" 0 sample_A sample_B 0]
      change_detection_by_identity [of sample_A
        "snd (getCurrentPosition None (success 0 sample_A watching))" 1 sample_A sample_B 0]
    by (simp add: watching_fields delivered_fields loose_neq_def sample_A_def sample_B_def)
qed

section \<open>A second call while watching\<close>

text \<open>
  C5: when \<^verbatim>\<open>allowed\<close> is true and a handle is stored, \<^verbatim>\<open>watchPosition()\<close> changes
  nothing but its own deferred, which it resolves at once with the cached sample: no call
  on the service, the same handle.
\<close>

theorem watchPosition_already_watching:
  assumes "ns_allowed s" and "ns_watchID s = Some w"
  shows "watchPosition svc s =
           (Inr (length (deferreds s)), s\<lparr>deferreds := deferreds s @ [Resolved (ns_position s)]\<rparr>) \<and>
         svc_calls (snd (watchPosition svc s)) = svc_calls s \<and>
         svc_watches (snd (watchPosition svc s)) = svc_watches s \<and>
         ns_watchID (snd (watchPosition svc s)) = Some w \<and>
         deferreds (snd (watchPosition svc s)) ! length (deferreds s) = Resolved (ns_position s)"
  using assms
  by (simp add: watchPosition_def sdk_defer_def get_allowed_def isWatching_def resolve_def
      settle_def get_position_def)

text \<open>
  C5 on the instance that is watching with handle 7.
\<close>

theorem watchPosition_already_watching_witness:
  "ns_allowed watching \<and> ns_watchID watching = Some 7 \<and>
   fst (watchPosition (Inr 8) watching) = Inr 1 \<and>
   svc_calls (snd (watchPosition (Inr 8) watching)) = svc_calls watching \<and>
   ns_watchID (snd (watchPosition (Inr 8) watching)) = Some 7 \<and>
   deferreds (snd (watchPosition (Inr 8) watching)) ! 1 = Resolved None"
  using watchPosition_already_watching [of watching 7 "Inr 8"]
  by (simp add: watching_fields)

section \<open>At most one watch\<close>

text \<open>
  C6: the stored handle is non-null exactly when one watch is registered with the
  service, and there is never more than one. The invariant holds after \<^verbatim>\<open>initialize\<close>
  and is kept by every operation and callback, hence by every sequence of them. With a
  handle stored, \<^verbatim>\<open>watchPosition()\<close> does not register; \<^verbatim>\<open>stopWatching()\<close> and
  \<^verbatim>\<open>allowed = false\<close> call \<^verbatim>\<open>clearWatch\<close> with the handle and leave no handle and no
  watch; a registration that throws leaves the handle null and rejects the promise.
\<close>

theorem watch_handle_invariant:
  assumes "watch_inv s"
  shows "watch_inv (initialize self_id v1 store) \<and>
         watch_inv (step a s) \<and> watch_inv (fold step acts s) \<and>
         isWatching s = (svc_watches s \<noteq> []) \<and> length (svc_watches s) \<le> 1 \<and>
         (ns_watchID s = Some w \<longrightarrow>
            svc_watches s = [w] \<and>
            svc_calls (snd (watchPosition svc s)) =
              svc_calls s @ (if ns_allowed s then [] else [SvcClearWatch w])) \<and>
         svc_calls (stopWatching s) =
           svc_calls s @ (case ns_watchID s of None \<Rightarrow> [] | Some w \<Rightarrow> [SvcClearWatch w]) \<and>
         ns_watchID (stopWatching s) = None \<and> svc_watches (stopWatching s) = [] \<and>
         ns_watchID (set_allowed False s) = None \<and> svc_watches (set_allowed False s) = [] \<and>
         (ns_allowed s \<and> ns_watchID s = None \<longrightarrow>
            fst (watchPosition (Inl ex) s) = Inr (length (deferreds s)) \<and>
            ns_watchID (snd (watchPosition (Inl ex) s)) = None \<and>
            svc_watches (snd (watchPosition (Inl ex) s)) = [] \<and>
            deferreds (snd (watchPosition (Inl ex) s)) ! length (deferreds s) =
              Rejected (Thrown ex))"
proof -
  have shape: "isWatching s = (svc_watches s \<noteq> [])" "length (svc_watches s) \<le> 1"
    "ns_watchID s = Some w \<longrightarrow> svc_watches s = [w]"
    "ns_watchID s = None \<longrightarrow> svc_watches s = []"
    using assms by (simp_all add: watch_inv_def isWatching_def split: option.splits)
  have revoke: "svc_watches (set_allowed False s) = []"
    using assms by (simp add: watch_inv_def set_allowed_def stopWatching_def isWatching_def
        split: option.splits)
  show ?thesis
    using assms shape revoke
    by (simp add: initialize_inv step_inv steps_inv watchPosition_calls_when_stored
        stopWatching_calls stopWatching_fields stopWatching_watches set_allowed_fields
        watchPosition_registration_failure)
qed

text \<open>
  C6 on the instance that is watching with handle 7 and on an allowed instance that is not.
\<close>

theorem watch_handle_invariant_witness:
  "watch_inv watching \<and> ns_watchID watching = Some 7 \<and> svc_watches watching = [7] \<and>
   watch_inv (step (WatchPosition (Inr 8)) watching) \<and>
   svc_watches (stopWatching watching) = [] \<and>
   watch_inv (set_allowed True fresh) \<and> ns_allowed (set_allowed True fresh) \<and>
   ns_watchID (set_allowed True fresh) = None \<and>
   ns_watchID (snd (watchPosition (Inl (SvcException ''bad options'')) (set_allowed True fresh))) = None \<and>
   deferreds (snd (watchPosition (Inl (SvcException ''bad options'')) (set_allowed True fresh))) ! 0 =
     Rejected (Thrown (SvcException ''bad options''))"
proof -
  have w: "watch_inv watching"
    by (simp add: watch_inv_def watching_fields)
  have f: "watch_inv (set_allowed True fresh)"
    by (simp add: watch_inv_def allowed_fields set_allowed_def fresh_fields)
  show ?thesis
    using w f
      watch_handle_invariant [OF w, of "''addon''" False Map.empty "WatchPosition (Inr 8)" "[]" 7
        "Inr 8" "SvcException ''bad options''"]
      watch_handle_invariant [OF f, of "''addon''" False Map.empty StopWatching "[]" 7
        "Inr 8" "SvcException ''bad options''"]
    by (simp add: watching_fields allowed_fields)
qed

section \<open>Assigning the permission\<close>

text \<open>
  C7: every assignment to \<^verbatim>\<open>allowed\<close> writes the value to the preference store under
  the key \<^verbatim>\<open>extensions.<id>.allowGeolocation\<close>, which never changes, within the
  assignment itself; assigning false stops a watch (with \<^verbatim>\<open>clearWatch\<close> of its handle),
  so that \<^verbatim>\<open>isWatching()\<close> is false right after.
\<close>

theorem set_allowed_persists_and_stops:
  "ALLOW_GEOLOCATION_PREF (initialize self_id v1 store) =
     ''extensions.'' @ self_id @ ''.allowGeolocation'' \<and>
   ALLOW_GEOLOCATION_PREF (set_allowed allow s) = ALLOW_GEOLOCATION_PREF s \<and>
   prefs (set_allowed allow s) (ALLOW_GEOLOCATION_PREF s) = Some (PBool allow) \<and>
   get_allowed (set_allowed allow s) = allow \<and>
   isWatching (set_allowed False s) = False \<and>
   svc_calls (set_allowed False s) =
     svc_calls s @ (case ns_watchID s of None \<Rightarrow> [] | Some w \<Rightarrow> [SvcClearWatch w])"
  by (simp add: initialize_def Let_def set_allowed_def stopWatching_def isWatching_def
      get_allowed_def split: option.splits)

section \<open>Exceptions of the service\<close>

text \<open>
  C8: the two gated entry points never throw, also when the call on the service throws.
  \<^verbatim>\<open>watchPosition()\<close> wraps the call in \<^verbatim>\<open>try\<close>/\<^verbatim>\<open>catch\<close> and rejects its
  promise; \<^verbatim>\<open>getCurrentPosition()\<close> has no \<^verbatim>\<open>try\<close>: on an allowed instance an
  exception of the service leaves it as thrown, with its deferred pending for ever.
\<close>

theorem getCurrentPosition_throws_synchronously:
  "ns_allowed (set_allowed True fresh) \<and>
   fst (getCurrentPosition (Some (SvcException ''bad options'')) (set_allowed True fresh)) =
     Inl (SvcException ''bad options'') \<and>
   deferreds (snd (getCurrentPosition (Some (SvcException ''bad options'')) (set_allowed True fresh))) =
     [Pending] \<and>
   fst (watchPosition (Inl (SvcException ''bad options'')) (set_allowed True fresh)) = Inr 0 \<and>
   deferreds (snd (watchPosition (Inl (SvcException ''bad options'')) (set_allowed True fresh))) =
     [Rejected (Thrown (SvcException ''bad options''))]"
  by (simp add: getCurrentPosition_def watchPosition_def sdk_defer_def get_allowed_def
      isWatching_def reject_def settle_def allowed_fields)

section \<open>Reading the properties before any sample\<close>

text \<open>
  C9: with no cached sample every getter returns its empty value and none throws. On a
  fresh instance \<^verbatim>\<open>latitude\<close> and \<^verbatim>\<open>longitude\<close> are the empty string and the five
  numeric getters are \<^verbatim>\<open>null\<close>, but \<^verbatim>\<open>address\<close> reads \<^verbatim>\<open>this.position.address\<close>
  with \<^verbatim>\<open>this.position\<close> null and throws a TypeError.
\<close>

theorem address_getter_throws_without_sample:
  "ns_position fresh = None \<and>
   get_latitude fresh = Str [] \<and> get_longitude fresh = Str [] \<and>
   get_accuracy fresh = Null \<and> get_altitude fresh = Null \<and>
   get_altitudeAccuracy fresh = Null \<and> get_heading fresh = Null \<and> get_speed fresh = Null \<and>
   get_address fresh = Inl TypeError"
  by (simp add: get_latitude_def get_longitude_def get_accuracy_def get_altitude_def
      get_altitudeAccuracy_def get_heading_def get_speed_def get_address_def get_coords_def
      get_position_def fresh_fields)

section \<open>Errors outside the three kinds\<close>

text \<open>
  C10, as stated: for every failure whose code equals none of the three constants the
  completion handle of the call still rejects with the error object. A deferred settles
  once. On the watch with handle 7 that has delivered \<open>sample_A\<close>, a failure with code 4
  emits nothing and leaves the handle resolved with \<open>sample_A\<close>: it is not rejected.
\<close>

theorem unclassified_error_lost_counterexample:
  "\<not> strict_eq (code (nsIDOMGeoPositionError 4)) (PERMISSION_DENIED (nsIDOMGeoPositionError 4)) \<and>
   \<not> strict_eq (code (nsIDOMGeoPositionError 4)) (POSITION_UNAVAILABLE (nsIDOMGeoPositionError 4)) \<and>
   \<not> strict_eq (code (nsIDOMGeoPositionError 4)) (TIMEOUT (nsIDOMGeoPositionError 4)) \<and>
   deferreds (success 0 sample_A watching) = [Resolved (Some sample_A)] \<and>
   emitted (fail 0 (nsIDOMGeoPositionError 4) (success 0 sample_A watching)) =
     emitted (success 0 sample_A watching) \<and>
   deferreds (fail 0 (nsIDOMGeoPositionError 4) (success 0 sample_A watching)) ! 0 =
     Resolved (Some sample_A) \<and>
   Resolved (Some sample_A) \<noteq> Rejected (ErrorObject (nsIDOMGeoPositionError 4))"
  by (simp add: fail_def reject_def settle_fields settle_deferreds onerror_emitted onerror_fields
      delivered_fields nsIDOMGeoPositionError_def strict_eq_def)

text \<open>
  C10, amended: when the code of a failure equals none of the three constants,
  \<^verbatim>\<open>_onerror\<close> does nothing, so no \<^verbatim>\<open>error\<close> event is emitted. The completion handle
  of the call is rejected with the error object as it came when it is still pending; a
  handle that has settled, as that of a watch that has delivered a sample, is left as it
  is, and then the failure leaves no trace at all.
\<close>

theorem unclassified_error_dropped:
  assumes "\<not> strict_eq (code e) (PERMISSION_DENIED e)"
    and "\<not> strict_eq (code e) (POSITION_UNAVAILABLE e)"
    and "\<not> strict_eq (code e) (TIMEOUT e)"
  shows "onerror e s = s \<and> emitted (fail d e s) = emitted s \<and>
         (d < length (deferreds s) \<and> deferreds s ! d = Pending \<longrightarrow>
            deferreds (fail d e s) ! d = Rejected (ErrorObject e)) \<and>
         deferreds (fail d e s) =
           (if d < length (deferreds s) \<and> deferreds s ! d = Pending
            then (deferreds s)[d := Rejected (ErrorObject e)] else deferreds s) \<and>
         (\<not> (d < length (deferreds s) \<and> deferreds s ! d = Pending) \<longrightarrow> fail d e s = s)"
  using assms
  by (simp add: onerror_def fail_def reject_def settle_fields settle_deferreds settle_def)

text \<open>
  The amended C10 for an error of the service with code 4: on the instance that is
  watching, whose handle is pending, the handle is rejected with the error; once the
  watch has delivered a sample the same failure changes nothing.
\<close>

theorem unclassified_error_dropped_witness:
  "\<not> strict_eq (code (nsIDOMGeoPositionError 4)) (PERMISSION_DENIED (nsIDOMGeoPositionError 4)) \<and>
   \<not> strict_eq (code (nsIDOMGeoPositionError 4)) (POSITION_UNAVAILABLE (nsIDOMGeoPositionError 4)) \<and>
   \<not> strict_eq (code (nsIDOMGeoPositionError 4)) (TIMEOUT (nsIDOMGeoPositionError 4)) \<and>
   deferreds watching = [Pending] \<and>
   emitted (fail 0 (nsIDOMGeoPositionError 4) watching) = [] \<and>
   deferreds (fail 0 (nsIDOMGeoPositionError 4) watching) =
     [Rejected (ErrorObject (nsIDOMGeoPositionError 4))] \<and>
   deferreds (success 0 sample_A watching) = [Resolved (Some sample_A)] \<and>
   fail 0 (nsIDOMGeoPositionError 4) (success 0 sample_A watching) = success 0 sample_A watching"
proof -
  have h: "\<not> strict_eq (code (nsIDOMGeoPositionError 4)) (PERMISSION_DENIED (nsIDOMGeoPositionError 4))"
    "\<not> strict_eq (code (nsIDOMGeoPositionError 4)) (POSITION_UNAVAILABLE (nsIDOMGeoPositionError 4))"
    "\<not> strict_eq (code (nsIDOMGeoPositionError 4)) (TIMEOUT (nsIDOMGeoPositionError 4))"
    by (simp_all add: nsIDOMGeoPositionError_def strict_eq_def)
  show ?thesis
    using h unclassified_error_dropped [OF h, of watching 0]
      unclassified_error_dropped [OF h, of "success 0 sample_A watching" 0]
    by (simp add: watching_fields delivered_fields)
qed

end
